theory Spec2Isabelle
  imports Complex_Main
begin

section \<open>Python values\<close>

text \<open>
  Python's unbounded \<open>int\<close> is \<^typ>\<open>int\<close>. A Python \<open>float\<close> is read as the exact
  rational number it stands for (\<^typ>\<open>rat\<close>): products, quotients and sums are exact, rounding
  error, infinities and NaN are outside the model. A Python number that may be an \<open>int\<close>
  or a \<open>float\<close> at run time is a \<^typ>\<open>rat\<close> as well. \<open>int(x)\<close> on a float truncates towards zero.
\<close>

definition py_int :: "rat \<Rightarrow> int" where
  "py_int x = (if 0 \<le> x then \<lfloor>x\<rfloor> else \<lceil>x\<rceil>)"

text \<open>\<open>round(x, 2)\<close>: the nearest multiple of 1/100, a tie going to the even one.\<close>

definition round_half_even :: "rat \<Rightarrow> int" where
  "round_half_even x =
     (let f = \<lfloor>x\<rfloor>; d = x - of_int f
      in if d < 1 / 2 then f
         else if 1 / 2 < d then f + 1
         else if even f then f else f + 1)"

definition py_round2 :: "rat \<Rightarrow> rat" where
  "py_round2 x = of_int (round_half_even (x * 100)) / 100"

datatype py_error =
    ZeroDivisionError
  | TypeError
  | AttributeError
  | KeyError
  | FileNotFoundError
  | ValueError string
  | LibraryError string

text \<open>Sequencing of calls that may raise: the first exception ends the computation.\<close>

definition and_then :: "py_error + 'a \<Rightarrow> ('a \<Rightarrow> py_error + 'b) \<Rightarrow> py_error + 'b" where
  "and_then r f = (case r of Inl e \<Rightarrow> Inl e | Inr v \<Rightarrow> f v)"

text \<open>
  A dict is an association list in which a key occurs once; \<open>d.get(k, default)\<close> returns
  the default for a key that is not there.
\<close>

definition dict_get :: "('k \<times> 'v) list \<Rightarrow> 'k \<Rightarrow> 'v \<Rightarrow> 'v" where
  "dict_get d k dflt = (case map_of d k of None \<Rightarrow> dflt | Some v \<Rightarrow> v)"

text \<open>
  The values of the \<open>market_metrics\<close> dict are typed \<open>Any\<close>: whatever the JSON body holds.
\<close>

datatype jval =
    JNull
  | JBool bool
  | JNum rat
  | JStr string
  | JArr "jval list"
  | JObj "(string \<times> jval) list"

text \<open>
  The operand of an arithmetic operator with a number on the other side: a number is itself,
  a bool counts as 1 or 0, anything else raises \<open>TypeError\<close>
  (a string or a list may be multiplied by 3, but the following \<open>50 + ...\<close> raises).
\<close>

fun as_number :: "jval \<Rightarrow> py_error + rat" where
  "as_number (JNum x) = Inr x"
| "as_number (JBool b) = Inr (if b then 1 else 0)"
| "as_number v = Inl TypeError"

text \<open>Decimal rendering of a non-negative integer, as an f-string prints it.\<close>

definition digit_char :: "nat \<Rightarrow> char" where
  "digit_char d = char_of (48 + d)"

fun str_nat :: "nat \<Rightarrow> string" where
  "str_nat n = (if n < 10 then [digit_char n] else str_nat (n div 10) @ [digit_char (n mod 10)])"

declare str_nat.simps [simp del]

section \<open>api/main.py: request and response models\<close>

record PropertyFeatures =
  pf_property_id :: string
  pf_sqft :: int
  pf_bedrooms :: int
  pf_bathrooms :: rat
  pf_year_built :: "int option"
  pf_lot_size :: "int option"
  pf_property_type :: string
  pf_latitude :: rat
  pf_longitude :: rat
  pf_zip_code :: string

record PredictionResponse =
  pr_property_id :: string
  pr_predicted_price :: int
  pr_confidence_interval :: "(string \<times> int) list"
  pr_appreciation_forecast :: rat
  pr_feature_importance :: "(string \<times> rat) list"
  pr_model_version :: string

record CompsRequest =
  cr_property_id :: string
  cr_latitude :: rat
  cr_longitude :: rat
  cr_sqft :: int
  cr_bedrooms :: int
  cr_bathrooms :: rat
  cr_property_type :: string
  cr_limit :: int

record InvestmentScoreRequest =
  isr_property_id :: string
  isr_list_price :: int
  isr_predicted_price :: "int option"
  isr_sqft :: int
  isr_appreciation_forecast :: "rat option"
  isr_market_metrics :: "(string \<times> jval) list option"

text \<open>
  The fields of the response as \<open>calculate_investment_score\<close> passes them to the
  constructor. Three of them can be floats there, whatever the annotation says.
\<close>

record InvestmentScoreResponse =
  overall_score :: int
  appreciation_score :: rat
  cash_flow_score :: int
  risk_adjusted_score :: int
  market_momentum_score :: rat
  liquidity_score :: rat
  risk_score :: int
  risk_level :: string
  recommendation :: string
  key_factors :: "string list"

section \<open>api/main.py: helper functions\<close>

definition base_prices :: "(string \<times> int) list" where
  "base_prices =
     [(''SINGLE_FAMILY'', 250), (''CONDO'', 300), (''TOWNHOUSE'', 275), (''MULTI_FAMILY'', 200)]"

definition estimate_price_per_sqft :: "string \<Rightarrow> string \<Rightarrow> int" where
  "estimate_price_per_sqft zip_code property_type = dict_get base_prices property_type 250"

definition encodings :: "(string \<times> int) list" where
  "encodings =
     [(''SINGLE_FAMILY'', 1), (''CONDO'', 2), (''TOWNHOUSE'', 3), (''MULTI_FAMILY'', 4),
      (''LAND'', 5), (''COMMERCIAL'', 6)]"

definition encode_property_type :: "string \<Rightarrow> int" where
  "encode_property_type property_type = dict_get encodings property_type 1"

text \<open>
  \<open>x or y\<close> on an optional integer: \<open>None\<close> and 0 are both falsy.
\<close>

definition or_else :: "int option \<Rightarrow> int \<Rightarrow> int" where
  "or_else x y = (case x of None \<Rightarrow> y | Some v \<Rightarrow> if v = 0 then y else v)"

definition feature_importance_table :: "(string \<times> rat) list" where
  "feature_importance_table =
     [(''sqft'', 35 / 100), (''location'', 25 / 100), (''bedrooms'', 15 / 100),
      (''bathrooms'', 10 / 100), (''property_age'', 8 / 100), (''lot_size'', 7 / 100)]"

text \<open>
  \<open>predict_price\<close>. The model cache, the clock and the random source are arguments:
  \<open>price_predictor\<close> is the entry of \<open>models\<close> under that key when there is one (a loaded
  object whose \<open>predict\<close> may raise), \<open>current_year\<close> is \<open>datetime.now().year\<close> and
  \<open>appreciation\<close> is the value \<open>estimate_appreciation\<close> draws.
\<close>

definition predict_price ::
  "(rat list \<Rightarrow> py_error + rat) option \<Rightarrow> int \<Rightarrow> rat \<Rightarrow> PropertyFeatures
     \<Rightarrow> py_error + PredictionResponse" where
  "predict_price price_predictor current_year appreciation features =
     (let property_age = current_year - or_else (pf_year_built features) 1990;
          price_per_sqft_estimate =
            estimate_price_per_sqft (pf_zip_code features) (pf_property_type features);
          feature_vector =
            [of_int (pf_sqft features),
             of_int (pf_bedrooms features),
             pf_bathrooms features,
             of_int property_age,
             of_int (or_else (pf_lot_size features) (pf_sqft features * 2)),
             of_int (encode_property_type (pf_property_type features)),
             pf_latitude features,
             pf_longitude features]
      in and_then
           (case price_predictor of
              Some model \<Rightarrow> and_then (model feature_vector) (\<lambda>y. Inr (py_int y))
            | None \<Rightarrow> Inr (pf_sqft features * price_per_sqft_estimate))
           (\<lambda>predicted_price.
              let confidence_margin = py_int (of_int predicted_price * (10 / 100))
              in Inr \<lparr> pr_property_id = pf_property_id features,
                       pr_predicted_price = predicted_price,
                       pr_confidence_interval =
                         [(''low'', predicted_price - confidence_margin),
                          (''high'', predicted_price + confidence_margin)],
                       pr_appreciation_forecast = appreciation,
                       pr_feature_importance = feature_importance_table,
                       pr_model_version = ''1.0.0'' \<rparr>))"

section \<open>api/main.py: synthetic comparables\<close>

text \<open>
  What one pass of the loop in \<open>generate_synthetic_comps\<close> takes from the random source and
  the clock: the five numpy draws, and the ISO text of \<open>datetime.now()\<close> moved back by the
  drawn number of days.
\<close>

record comp_draw =
  d_variance :: rat
  d_days :: int
  d_sold_date :: "int \<Rightarrow> string"
  d_sqft_noise :: rat
  d_bedroom_choice :: int
  d_distance :: rat
  d_similarity :: rat


record comp =
  c_address :: string
  c_city :: string
  c_state :: string
  c_sold_price :: int
  c_sold_date :: string
  c_sqft :: int
  c_bedrooms :: int
  c_bathrooms :: rat
  c_distance :: rat
  c_similarity :: rat

definition make_comp :: "CompsRequest \<Rightarrow> nat \<Rightarrow> comp_draw \<Rightarrow> comp" where
  "make_comp request i d =
     (let variance = d_variance d
      in \<lparr> c_address = str_nat (100 + i * 10) @ '' Demo Street'',
            c_city = ''Sample City'',
            c_state = ''CA'',
            c_sold_price = py_int (of_int (cr_sqft request * 250) * (1 + variance)),
            c_sold_date = d_sold_date d (d_days d),
            c_sqft = py_int (of_int (cr_sqft request) * (1 + d_sqft_noise d)),
            c_bedrooms = cr_bedrooms request + d_bedroom_choice d,
            c_bathrooms = cr_bathrooms request,
            c_distance = py_round2 (d_distance d),
            c_similarity = py_round2 (d_similarity d) \<rparr>)"

text \<open>
  \<open>range(limit)\<close> is empty for a limit below 1. \<open>sorted(..., reverse=True)\<close> is stable:
  records with equal keys keep their order, which is the stable ascending sort on the
  negated key.
\<close>

definition generate_synthetic_comps :: "(nat \<Rightarrow> comp_draw) \<Rightarrow> CompsRequest \<Rightarrow> comp list" where
  "generate_synthetic_comps draws request =
     (let comps = map (\<lambda>i. make_comp request i (draws i)) [0 ..< nat (cr_limit request)]
      in sort_key (\<lambda>x. - c_similarity x) comps)"

section \<open>api/main.py: investment score\<close>

definition calculate_appreciation_score :: "int \<Rightarrow> int option \<Rightarrow> rat option \<Rightarrow> rat" where
  "calculate_appreciation_score list_price predicted_price appreciation_forecast =
     (let score = 50;
          score =
            (case predicted_price of
               None \<Rightarrow> score
             | Some pp \<Rightarrow>
                 if pp \<noteq> 0 \<and> list_price \<noteq> 0 then
                   let upside = (of_int (pp - list_price) / of_int list_price) * 100
                   in min 100 (max 0 (50 + upside * 5))
                 else score);
          score =
            (case appreciation_forecast of
               None \<Rightarrow> score
             | Some af \<Rightarrow>
                 if af \<noteq> 0 then min 100 (of_int (py_int ((score + af * 5) / 2)))
                 else score)
      in score)"

definition calculate_cash_flow_score ::
  "int \<Rightarrow> int \<Rightarrow> (string \<times> jval) list option \<Rightarrow> py_error + int" where
  "calculate_cash_flow_score list_price sqft market_metrics =
     (let estimated_rent = of_int sqft * (15 / 10);
          annual_rent = estimated_rent * 12
      in if list_price = 0 then Inl ZeroDivisionError
         else let gross_yield = (annual_rent / of_int list_price) * 100
              in Inr (min 100 (py_int (gross_yield * 10))))"

text \<open>\<open>not market_metrics\<close> holds for \<open>None\<close> and for the empty dict.\<close>

definition no_metrics :: "(string \<times> jval) list option \<Rightarrow> bool" where
  "no_metrics market_metrics = (case market_metrics of None \<Rightarrow> True | Some d \<Rightarrow> d = [])"

definition metrics_get :: "(string \<times> jval) list option \<Rightarrow> string \<Rightarrow> jval \<Rightarrow> jval" where
  "metrics_get market_metrics k dflt =
     (case market_metrics of None \<Rightarrow> dflt | Some d \<Rightarrow> dict_get d k dflt)"

definition calculate_market_momentum_score ::
  "(string \<times> jval) list option \<Rightarrow> py_error + rat" where
  "calculate_market_momentum_score market_metrics =
     (if no_metrics market_metrics then Inr 50
      else and_then (as_number (metrics_get market_metrics ''appreciation_1y'' (JNum 0)))
             (\<lambda>appreciation. Inr (min 100 (max 0 (50 + appreciation * 3)))))"

definition calculate_liquidity_score ::
  "(string \<times> jval) list option \<Rightarrow> py_error + rat" where
  "calculate_liquidity_score market_metrics =
     (if no_metrics market_metrics then Inr 50
      else and_then (as_number (metrics_get market_metrics ''days_on_market_avg'' (JNum 60)))
             (\<lambda>days_on_market. Inr (max 0 (100 - days_on_market))))"

definition temperature_scores :: "(string \<times> int) list" where
  "temperature_scores =
     [(''HOT'', 30), (''WARM'', 40), (''NEUTRAL'', 50), (''COOL'', 60), (''COLD'', 70)]"

text \<open>
  The table's keys are strings, so a hashable value of another type is never found; a list
  or a dict is unhashable and the lookup raises.
\<close>

definition calculate_risk_score :: "(string \<times> jval) list option \<Rightarrow> py_error + int" where
  "calculate_risk_score market_metrics =
     (if no_metrics market_metrics then Inr 50
      else case metrics_get market_metrics ''market_temperature'' (JStr ''NEUTRAL'') of
             JStr temperature \<Rightarrow> Inr (dict_get temperature_scores temperature 50)
           | JArr _ \<Rightarrow> Inl TypeError
           | JObj _ \<Rightarrow> Inl TypeError
           | _ \<Rightarrow> Inr 50)"

definition get_risk_level :: "int \<Rightarrow> string" where
  "get_risk_level risk_score' =
     (if risk_score' \<le> 30 then ''Low''
      else if risk_score' \<le> 50 then ''Medium-Low''
      else if risk_score' \<le> 70 then ''Medium''
      else if risk_score' \<le> 85 then ''Medium-High''
      else ''High'')"

definition generate_recommendation :: "int \<Rightarrow> rat \<Rightarrow> int \<Rightarrow> int \<Rightarrow> string" where
  "generate_recommendation overall appreciation cash_flow risk =
     (if overall \<ge> 80 then ''Strong Buy - Excellent investment opportunity.''
      else if overall \<ge> 65 then ''Buy - Good investment potential.''
      else if overall \<ge> 50 then
        (if appreciation > 70 then
           ''Consider - Strong appreciation potential for growth investors.''
         else if cash_flow > 70 then ''Consider - Strong cash flow for income investors.''
         else ''Hold - Average investment opportunity.'')
      else if risk > 70 then ''Avoid - High risk with below-average returns.''
      else ''Pass - Look for better alternatives.'')"

definition get_key_factors :: "rat \<Rightarrow> int \<Rightarrow> rat \<Rightarrow> rat \<Rightarrow> string list" where
  "get_key_factors appreciation cash_flow momentum liquidity =
     (let factors = [];
          factors =
            (if appreciation \<ge> 70 then factors @ [''Strong appreciation potential'']
             else if appreciation \<le> 30 then factors @ [''Limited appreciation upside'']
             else factors);
          factors =
            (if cash_flow \<ge> 70 then factors @ [''Excellent cash flow opportunity'']
             else if cash_flow \<le> 30 then factors @ [''Weak rental yield'']
             else factors);
          factors =
            (if momentum \<ge> 70 then factors @ [''Strong market momentum'']
             else if momentum \<le> 30 then factors @ [''Declining market trend'']
             else factors);
          factors =
            (if liquidity \<ge> 70 then factors @ [''High market liquidity'']
             else if liquidity \<le> 30 then
               factors @ [''Low market liquidity - longer hold times expected'']
             else factors)
      in if factors = [] then [''Average market conditions''] else factors)"

definition calculate_investment_score ::
  "InvestmentScoreRequest \<Rightarrow> py_error + InvestmentScoreResponse" where
  "calculate_investment_score request =
     (let appreciation_score' =
            calculate_appreciation_score (isr_list_price request) (isr_predicted_price request)
              (isr_appreciation_forecast request)
      in and_then
           (calculate_cash_flow_score (isr_list_price request) (isr_sqft request)
              (isr_market_metrics request))
        (\<lambda>cash_flow_score'.
         and_then (calculate_market_momentum_score (isr_market_metrics request))
        (\<lambda>market_momentum_score'.
         and_then (calculate_liquidity_score (isr_market_metrics request))
        (\<lambda>liquidity_score'.
         and_then (calculate_risk_score (isr_market_metrics request))
        (\<lambda>risk_score'.
           let risk_adjusted_score' =
                 py_int ((appreciation_score' + of_int cash_flow_score') / 2
                         * (1 - of_int risk_score' / 200));
               overall_score' =
                 py_int (appreciation_score' * (30 / 100)
                         + of_int cash_flow_score' * (25 / 100)
                         + of_int risk_adjusted_score' * (20 / 100)
                         + market_momentum_score' * (15 / 100)
                         + liquidity_score' * (10 / 100));
               risk_level' = get_risk_level risk_score';
               recommendation' =
                 generate_recommendation overall_score' appreciation_score' cash_flow_score'
                   risk_score';
               key_factors' =
                 get_key_factors appreciation_score' cash_flow_score' market_momentum_score'
                   liquidity_score'
           in Inr \<lparr> overall_score = overall_score',
                    appreciation_score = appreciation_score',
                    cash_flow_score = cash_flow_score',
                    risk_adjusted_score = risk_adjusted_score',
                    market_momentum_score = market_momentum_score',
                    liquidity_score = liquidity_score',
                    risk_score = risk_score',
                    risk_level = risk_level',
                    recommendation = recommendation',
                    key_factors = key_factors' \<rparr>)))))"

section \<open>models/price_predictor.py: the library boundary\<close>

text \<open>
  pandas, scikit-learn, XGBoost, LightGBM and joblib are outside the repository. Their objects
  (a fitted preprocessor, a design matrix, a regressor, a scaler) are values of type
  parameters, and each of their calls is a function handed in through a record. A call
  either returns or raises; the exception of a library is kept apart from the exceptions the
  module raises itself by the constructor \<open>LibraryError\<close>, which carries its message.
\<close>

definition lib_call :: "string + 'a \<Rightarrow> py_error + 'a" where
  "lib_call r = (case r of Inl msg \<Rightarrow> Inl (LibraryError msg) | Inr v \<Rightarrow> Inr v)"

text \<open>
  A method that changes \<open>self\<close> and may raise returns the object as the method left it
  together with the outcome. \<open>attempt r self f\<close> runs the rest \<open>f\<close> of the method when
  the call \<open>r\<close> returned, and otherwise stops with \<open>self\<close> as it is at that point.
\<close>

definition attempt :: "py_error + 'a \<Rightarrow> 's \<Rightarrow> ('a \<Rightarrow> 's \<times> (py_error + 'b)) \<Rightarrow> 's \<times> (py_error + 'b)" where
  "attempt r self f = (case r of Inl e \<Rightarrow> (self, Inl e) | Inr v \<Rightarrow> f v)"

text \<open>
  An elementwise numpy operation on two one-dimensional arrays: equal lengths pair up, an
  array of length one is broadcast, any other pair of shapes raises \<open>ValueError\<close>.
\<close>

definition np_zip :: "(rat \<Rightarrow> rat \<Rightarrow> rat) \<Rightarrow> rat list \<Rightarrow> rat list \<Rightarrow> py_error + rat list" where
  "np_zip f xs ys =
     (if length xs = length ys then Inr (map2 f xs ys)
      else if length xs = 1 then Inr (map (f (hd xs)) ys)
      else if length ys = 1 then Inr (map (\<lambda>x. f x (hd ys)) xs)
      else Inl (ValueError ''operands could not be broadcast together''))"

text \<open>
  A row of the feature DataFrame: the columns \<open>_engineer_features\<close> reads or writes, a
  missing value being \<open>None\<close>, and the remaining columns as one opaque value.
\<close>

record 'c house_row =
  h_sqft :: rat
  h_year_built :: "rat option"
  h_lot_size :: "rat option"
  h_stories :: "rat option"
  h_garage :: "rat option"
  h_property_age :: "rat option"
  h_other :: 'c

record ('c, 'mat, 'pre, 'mdl) price_lib =
  train_test_split ::
    "'c house_row list \<Rightarrow> rat list \<Rightarrow> rat \<Rightarrow> int
       \<Rightarrow> string + ('c house_row list \<times> 'c house_row list \<times> rat list \<times> rat list)"
  column_transformer :: "string list \<Rightarrow> string list \<Rightarrow> 'pre"
  fit_transform :: "'pre \<Rightarrow> 'c house_row list \<Rightarrow> string + ('pre \<times> 'mat)"
  transform :: "'pre \<Rightarrow> 'c house_row list \<Rightarrow> string + 'mat"
  get_feature_names_out :: "'pre \<Rightarrow> string + string list"
  xgb_regressor :: "int \<Rightarrow> 'mdl"
  lgbm_regressor :: "int \<Rightarrow> 'mdl"
  regressor_fit :: "'mdl \<Rightarrow> 'mat \<Rightarrow> rat list \<Rightarrow> 'mat \<Rightarrow> rat list \<Rightarrow> string + 'mdl"
  regressor_predict :: "'mdl \<Rightarrow> 'mat \<Rightarrow> string + rat list"
  feature_importances :: "'mdl \<Rightarrow> string + rat list"
  price_metrics :: "rat list \<Rightarrow> rat list \<Rightarrow> string + (string \<times> rat) list"

record ('md, 'mat, 'sc, 'mdl) appreciation_lib =
  standard_scaler :: 'sc
  scaler_fit_transform :: "'sc \<Rightarrow> 'md \<Rightarrow> string + ('sc \<times> 'mat)"
  scaler_transform :: "'sc \<Rightarrow> 'md \<Rightarrow> string + 'mat"
  split_scaled :: "'mat \<Rightarrow> rat list \<Rightarrow> string + ('mat \<times> 'mat \<times> rat list \<times> rat list)"
  lgbm_appreciation :: 'mdl
  appreciation_regressor_fit :: "'mdl \<Rightarrow> 'mat \<Rightarrow> rat list \<Rightarrow> string + 'mdl"
  appreciation_regressor_predict :: "'mdl \<Rightarrow> 'mat \<Rightarrow> string + rat list"
  appreciation_metrics :: "rat list \<Rightarrow> rat list \<Rightarrow> string + (string \<times> rat) list"

text \<open>
  What \<open>joblib.dump\<close> writes and \<open>joblib.load\<close> reads back: the dict of one of the two
  \<open>save\<close> methods, or some other object. The file system maps a path to what is stored
  there.
\<close>

datatype ('pre, 'mdl, 'sc) stored =
    PriceBundle "'mdl option" "'mdl option" "'pre option" "string list option"
  | AppreciationBundle "'mdl option" 'sc
  | OtherObject

section \<open>models/price_predictor.py: PropertyPricePredictor\<close>

record ('pre, 'mdl) PropertyPricePredictor =
  pp_xgb_model :: "'mdl option"
  pp_lgb_model :: "'mdl option"
  pp_preprocessor :: "'pre option"
  pp_feature_names :: "string list option"
  pp_is_fitted :: bool

definition numeric_features :: "string list" where
  "numeric_features =
     [''sqft'', ''bedrooms'', ''bathrooms'', ''lot_size'', ''year_built'', ''stories'',
      ''garage'', ''property_age'', ''latitude'', ''longitude'']"

definition categorical_features :: "string list" where
  "categorical_features = [''property_type'', ''city'', ''state'']"

definition PropertyPricePredictor_init :: "('pre, 'mdl) PropertyPricePredictor" where
  "PropertyPricePredictor_init =
     \<lparr> pp_xgb_model = None, pp_lgb_model = None, pp_preprocessor = None,
       pp_feature_names = None, pp_is_fitted = False \<rparr>"

definition fillna :: "rat option \<Rightarrow> rat \<Rightarrow> rat" where
  "fillna v d = (case v of None \<Rightarrow> d | Some x \<Rightarrow> x)"

definition engineer_features :: "int \<Rightarrow> 'c house_row list \<Rightarrow> 'c house_row list" where
  "engineer_features current_year df =
     map (\<lambda>row. row \<lparr> h_property_age := Some (of_int current_year - fillna (h_year_built row) 1990),
                     h_lot_size := Some (fillna (h_lot_size row) (h_sqft row * 2)),
                     h_stories := Some (fillna (h_stories row) 1),
                     h_garage := Some (fillna (h_garage row) 0) \<rparr>) df"

definition PropertyPricePredictor_fit ::
  "('c, 'mat, 'pre, 'mdl) price_lib \<Rightarrow> int \<Rightarrow> ('pre, 'mdl) PropertyPricePredictor
     \<Rightarrow> 'c house_row list \<Rightarrow> rat list \<Rightarrow> rat \<Rightarrow> int
     \<Rightarrow> ('pre, 'mdl) PropertyPricePredictor \<times> (py_error + (string \<times> rat) list)" where
  "PropertyPricePredictor_fit lib current_year self X y test_size random_state =
     (let X = engineer_features current_year X
      in attempt (lib_call (train_test_split lib X y test_size random_state)) self
        (\<lambda>(X_train, X_test, y_train, y_test).
      let unfitted = column_transformer lib numeric_features categorical_features;
          self = self \<lparr> pp_preprocessor := Some unfitted \<rparr>
      in attempt (lib_call (fit_transform lib unfitted X_train)) self
        (\<lambda>(pre, X_train_processed).
      let self = self \<lparr> pp_preprocessor := Some pre \<rparr>
      in attempt (lib_call (transform lib pre X_test)) self
        (\<lambda>X_test_processed.
         attempt (lib_call (get_feature_names_out lib pre)) self
        (\<lambda>cat_names.
      let self = self \<lparr> pp_feature_names := Some (numeric_features @ cat_names) \<rparr>;
          self = self \<lparr> pp_xgb_model := Some (xgb_regressor lib random_state) \<rparr>
      in attempt (lib_call (regressor_fit lib (xgb_regressor lib random_state)
                              X_train_processed y_train X_test_processed y_test)) self
        (\<lambda>xgb.
      let self = self \<lparr> pp_xgb_model := Some xgb \<rparr>;
          self = self \<lparr> pp_lgb_model := Some (lgbm_regressor lib random_state) \<rparr>
      in attempt (lib_call (regressor_fit lib (lgbm_regressor lib random_state)
                              X_train_processed y_train X_test_processed y_test)) self
        (\<lambda>lgb.
      let self = self \<lparr> pp_lgb_model := Some lgb \<rparr>
      in attempt (lib_call (regressor_predict lib xgb X_test_processed)) self
        (\<lambda>xgb_pred.
         attempt (lib_call (regressor_predict lib lgb X_test_processed)) self
        (\<lambda>lgb_pred.
         attempt (np_zip (\<lambda>a b. (a + b) / 2) xgb_pred lgb_pred) self
        (\<lambda>ensemble_pred.
         attempt (lib_call (price_metrics lib y_test ensemble_pred)) self
        (\<lambda>metrics. (self \<lparr> pp_is_fitted := True \<rparr>, Inr metrics))))))))))))"

definition PropertyPricePredictor_predict ::
  "('c, 'mat, 'pre, 'mdl) price_lib \<Rightarrow> int \<Rightarrow> ('pre, 'mdl) PropertyPricePredictor
     \<Rightarrow> 'c house_row list \<Rightarrow> bool
     \<Rightarrow> py_error + (rat list \<times> rat list option \<times> rat list option)" where
  "PropertyPricePredictor_predict lib current_year self X return_confidence =
     (if \<not> pp_is_fitted self then Inl (ValueError ''Model must be fitted before prediction'')
      else
        let X = engineer_features current_year X
        in case pp_preprocessor self of
             None \<Rightarrow> Inl AttributeError
           | Some pre \<Rightarrow>
        and_then (lib_call (transform lib pre X))
          (\<lambda>X_processed.
        case pp_xgb_model self of
          None \<Rightarrow> Inl AttributeError
        | Some xgb \<Rightarrow>
        and_then (lib_call (regressor_predict lib xgb X_processed))
          (\<lambda>xgb_pred.
        case pp_lgb_model self of
          None \<Rightarrow> Inl AttributeError
        | Some lgb \<Rightarrow>
        and_then (lib_call (regressor_predict lib lgb X_processed))
          (\<lambda>lgb_pred.
        and_then (np_zip (\<lambda>a b. (a + b) / 2) xgb_pred lgb_pred)
          (\<lambda>predictions.
        if return_confidence then
          and_then (np_zip (\<lambda>a b. \<bar>a - b\<bar>) xgb_pred lgb_pred)
            (\<lambda>disagreement.
          let uncertainty = map2 max disagreement (map (\<lambda>p. p * (5 / 100)) predictions);
              lower_bound = map2 (\<lambda>p u. p - u * (15 / 10)) predictions uncertainty;
              upper_bound = map2 (\<lambda>p u. p + u * (15 / 10)) predictions uncertainty
          in Inr (predictions, Some lower_bound, Some upper_bound))
        else Inr (predictions, None, None))))))"

text \<open>
  The importance table: one row per feature with the two importances and their mean, sorted
  by the mean, largest first. With no feature names the column holds \<open>None\<close> in every row.
\<close>

definition PropertyPricePredictor_get_feature_importance ::
  "('c, 'mat, 'pre, 'mdl) price_lib \<Rightarrow> ('pre, 'mdl) PropertyPricePredictor
     \<Rightarrow> py_error + (string option \<times> rat \<times> rat \<times> rat) list" where
  "PropertyPricePredictor_get_feature_importance lib self =
     (if \<not> pp_is_fitted self then Inl (ValueError ''Model must be fitted first'')
      else
        case pp_xgb_model self of
          None \<Rightarrow> Inl AttributeError
        | Some xgb \<Rightarrow>
        and_then (lib_call (feature_importances lib xgb))
          (\<lambda>xgb_importance.
        case pp_lgb_model self of
          None \<Rightarrow> Inl AttributeError
        | Some lgb \<Rightarrow>
        and_then (lib_call (feature_importances lib lgb))
          (\<lambda>lgb_importance.
        and_then (np_zip (\<lambda>a b. (a + b) / 2) xgb_importance lgb_importance)
          (\<lambda>avg_importance.
        let n = length avg_importance;
            features =
              (case pp_feature_names self of
                 None \<Rightarrow> replicate n None
               | Some names \<Rightarrow> map Some names)
        in if length features = n \<and> length xgb_importance = n \<and> length lgb_importance = n
           then Inr (sort_key (\<lambda>(f, x, l, a). - a)
                       (zip features (zip xgb_importance (zip lgb_importance avg_importance))))
           else Inl (LibraryError ''All arrays must be of the same length'')))))"

definition PropertyPricePredictor_save ::
  "(string \<rightharpoonup> ('pre, 'mdl, 'sc) stored) \<Rightarrow> ('pre, 'mdl) PropertyPricePredictor \<Rightarrow> string
     \<Rightarrow> (string \<rightharpoonup> ('pre, 'mdl, 'sc) stored)" where
  "PropertyPricePredictor_save fs self path =
     fs (path \<mapsto> PriceBundle (pp_xgb_model self) (pp_lgb_model self) (pp_preprocessor self)
                   (pp_feature_names self))"

definition PropertyPricePredictor_load ::
  "(string \<rightharpoonup> ('pre, 'mdl, 'sc) stored) \<Rightarrow> string
     \<Rightarrow> py_error + ('pre, 'mdl) PropertyPricePredictor" where
  "PropertyPricePredictor_load fs path =
     (case fs path of
        None \<Rightarrow> Inl FileNotFoundError
      | Some (PriceBundle xgb lgb pre names) \<Rightarrow>
          Inr ((PropertyPricePredictor_init :: ('pre, 'mdl) PropertyPricePredictor)
                 \<lparr> pp_xgb_model := xgb, pp_lgb_model := lgb, pp_preprocessor := pre,
                   pp_feature_names := names, pp_is_fitted := True \<rparr>)
      | Some (AppreciationBundle m s) \<Rightarrow> Inl KeyError
      | Some OtherObject \<Rightarrow> Inl TypeError)"

section \<open>models/price_predictor.py: AppreciationPredictor\<close>

record ('sc, 'mdl) AppreciationPredictor =
  ap_model :: "'mdl option"
  ap_scaler :: 'sc
  ap_is_fitted :: bool

definition AppreciationPredictor_init ::
  "('md, 'mat, 'sc, 'mdl) appreciation_lib \<Rightarrow> ('sc, 'mdl) AppreciationPredictor" where
  "AppreciationPredictor_init lib =
     \<lparr> ap_model = None, ap_scaler = standard_scaler lib, ap_is_fitted = False \<rparr>"

definition AppreciationPredictor_fit ::
  "('md, 'mat, 'sc, 'mdl) appreciation_lib \<Rightarrow> ('sc, 'mdl) AppreciationPredictor
     \<Rightarrow> 'md \<Rightarrow> rat list
     \<Rightarrow> ('sc, 'mdl) AppreciationPredictor \<times> (py_error + (string \<times> rat) list)" where
  "AppreciationPredictor_fit lib self market_data appreciation =
     attempt (lib_call (scaler_fit_transform lib (ap_scaler self) market_data)) self
       (\<lambda>(scaler, X_scaled).
     let self = self \<lparr> ap_scaler := scaler \<rparr>
     in attempt (lib_call (split_scaled lib X_scaled appreciation)) self
       (\<lambda>(X_train, X_test, y_train, y_test).
     let self = self \<lparr> ap_model := Some (lgbm_appreciation lib) \<rparr>
     in attempt (lib_call (appreciation_regressor_fit lib (lgbm_appreciation lib) X_train y_train))
          self
       (\<lambda>model.
     let self = self \<lparr> ap_model := Some model \<rparr>
     in attempt (lib_call (appreciation_regressor_predict lib model X_test)) self
       (\<lambda>predictions.
        attempt (lib_call (appreciation_metrics lib y_test predictions)) self
       (\<lambda>metrics. (self \<lparr> ap_is_fitted := True \<rparr>, Inr metrics))))))"

definition AppreciationPredictor_predict ::
  "('md, 'mat, 'sc, 'mdl) appreciation_lib \<Rightarrow> ('sc, 'mdl) AppreciationPredictor \<Rightarrow> 'md
     \<Rightarrow> py_error + rat list" where
  "AppreciationPredictor_predict lib self market_data =
     (if \<not> ap_is_fitted self then Inl (ValueError ''Model must be fitted first'')
      else
        and_then (lib_call (scaler_transform lib (ap_scaler self) market_data))
          (\<lambda>X_scaled.
        case ap_model self of
          None \<Rightarrow> Inl AttributeError
        | Some model \<Rightarrow> lib_call (appreciation_regressor_predict lib model X_scaled)))"

definition AppreciationPredictor_save ::
  "(string \<rightharpoonup> ('pre, 'mdl, 'sc) stored) \<Rightarrow> ('sc, 'mdl) AppreciationPredictor \<Rightarrow> string
     \<Rightarrow> (string \<rightharpoonup> ('pre, 'mdl, 'sc) stored)" where
  "AppreciationPredictor_save fs self path =
     fs (path \<mapsto> AppreciationBundle (ap_model self) (ap_scaler self))"

definition AppreciationPredictor_load ::
  "('md, 'mat, 'sc, 'mdl) appreciation_lib \<Rightarrow> (string \<rightharpoonup> ('pre, 'mdl, 'sc) stored) \<Rightarrow> string
     \<Rightarrow> py_error + ('sc, 'mdl) AppreciationPredictor" where
  "AppreciationPredictor_load lib fs path =
     (case fs path of
        None \<Rightarrow> Inl FileNotFoundError
      | Some (AppreciationBundle m s) \<Rightarrow>
          Inr ((AppreciationPredictor_init lib) \<lparr> ap_model := m, ap_scaler := s,
                                                 ap_is_fitted := True \<rparr>)
      | Some (PriceBundle xgb lgb pre names) \<Rightarrow> Inl KeyError
      | Some OtherObject \<Rightarrow> Inl TypeError)"

section \<open>Concrete inputs\<close>

text \<open>The request of the specification's worked example.\<close>

definition example_request :: InvestmentScoreRequest where
  "example_request =
     \<lparr> isr_property_id = ''P-1'', isr_list_price = 300000, isr_predicted_price = None,
       isr_sqft = 1500, isr_appreciation_forecast = None, isr_market_metrics = None \<rparr>"



definition low_draw :: comp_draw where
  "low_draw =
     \<lparr> d_variance = 0, d_days = 30, d_sold_date = (\<lambda>days. ''2026-01-01T00:00:00''),
       d_sqft_noise = - (9 / 100), d_bedroom_choice = 0, d_distance = 1,
       d_similarity = 8 / 10 \<rparr>"

text \<open>A comps request for three records, and three draws whose similarities are out of order.\<close>

definition three_request :: CompsRequest where
  "three_request =
     \<lparr> cr_property_id = ''Q-3'', cr_latitude = 0, cr_longitude = 0, cr_sqft = 1500,
       cr_bedrooms = 3, cr_bathrooms = 2, cr_property_type = ''CONDO'', cr_limit = 3 \<rparr>"

definition three_draws :: "nat \<Rightarrow> comp_draw" where
  "three_draws i =
     low_draw \<lparr> d_similarity := (if i = 0 then 80 / 100 else if i = 1 then 90 / 100 else 85 / 100) \<rparr>"

text \<open>
  Requests with a forecast of a 12 percent decline, with a negative area, and with a negative
  average of days on market.
\<close>

definition declining_request :: InvestmentScoreRequest where
  "declining_request = example_request \<lparr> isr_appreciation_forecast := Some (- 12) \<rparr>"

definition negative_sqft_request :: InvestmentScoreRequest where
  "negative_sqft_request = example_request \<lparr> isr_sqft := - 1500 \<rparr>"

definition negative_days_request :: InvestmentScoreRequest where
  "negative_days_request =
     example_request \<lparr> isr_market_metrics := Some [(''days_on_market_avg'', JNum (- 1000))] \<rparr>"

text \<open>A request with every optional field given.\<close>

definition full_request :: InvestmentScoreRequest where
  "full_request =
     \<lparr> isr_property_id = ''P-2'', isr_list_price = 300000, isr_predicted_price = Some 330000,
       isr_sqft = 1500, isr_appreciation_forecast = Some 5,
       isr_market_metrics =
         Some [(''appreciation_1y'', JNum 4), (''days_on_market_avg'', JNum 35),
               (''market_temperature'', JStr ''HOT'')] \<rparr>"

text \<open>
  Stand-ins for the libraries: one whose calls all return, one whose regressor cannot be
  trained, and a file system holding one saved bundle of each kind.
\<close>

definition toy_price_lib :: "(unit, unit, unit, nat) price_lib" where
  "toy_price_lib =
     \<lparr> train_test_split = (\<lambda>X y test_size random_state. Inr (X, X, y, y)),
       column_transformer = (\<lambda>numeric categorical. ()),
       fit_transform = (\<lambda>pre X. Inr ((), ())),
       transform = (\<lambda>pre X. Inr ()),
       get_feature_names_out = (\<lambda>pre. Inr [''property_type_CONDO'']),
       xgb_regressor = (\<lambda>random_state. 0),
       lgbm_regressor = (\<lambda>random_state. 0),
       regressor_fit = (\<lambda>m Xt yt Xe ye. Inr (Suc m)),
       regressor_predict = (\<lambda>m X. Inr [100]),
       feature_importances = (\<lambda>m. Inr (replicate 11 1)),
       price_metrics = (\<lambda>y p. Inr [(''mae'', 0)]) \<rparr>"

definition failing_price_lib :: "(unit, unit, unit, nat) price_lib" where
  "failing_price_lib = toy_price_lib \<lparr> regressor_fit := (\<lambda>m Xt yt Xe ye. Inl ''training failed'') \<rparr>"

definition toy_appreciation_lib :: "(unit, unit, unit, nat) appreciation_lib" where
  "toy_appreciation_lib =
     \<lparr> standard_scaler = (),
       scaler_fit_transform = (\<lambda>s d. Inr ((), ())),
       scaler_transform = (\<lambda>s d. Inr ()),
       split_scaled = (\<lambda>X y. Inr (X, X, y, y)),
       lgbm_appreciation = 0,
       appreciation_regressor_fit = (\<lambda>m X y. Inr (Suc m)),
       appreciation_regressor_predict = (\<lambda>m X. Inr [3]),
       appreciation_metrics = (\<lambda>y p. Inr [(''mae'', 0)]) \<rparr>"

definition failing_appreciation_lib :: "(unit, unit, unit, nat) appreciation_lib" where
  "failing_appreciation_lib =
     toy_appreciation_lib \<lparr> appreciation_regressor_fit := (\<lambda>m X y. Inl ''training failed'') \<rparr>"

definition toy_files :: "string \<rightharpoonup> (unit, nat, unit) stored" where
  "toy_files =
     [''price_predictor.joblib'' \<mapsto> PriceBundle (Some 1) (Some 1) (Some ()) (Some numeric_features),
      ''appreciation_model.joblib'' \<mapsto> AppreciationBundle (Some 1) ()]"

definition toy_row :: "unit house_row" where
  "toy_row =
     \<lparr> h_sqft = 1500, h_year_built = None, h_lot_size = None, h_stories = Some 2,
       h_garage = None, h_property_age = None, h_other = () \<rparr>"

section \<open>Integer truncation\<close>

lemma py_int_of_int [simp]: "py_int (of_int n) = n"
  by (simp add: py_int_def)

lemma py_int_le_int: "x \<le> of_int n \<Longrightarrow> py_int x \<le> n"
  by (simp add: py_int_def floor_le_iff ceiling_le_iff)

lemma int_le_py_int: "of_int n \<le> x \<Longrightarrow> n \<le> py_int x"
  by (simp add: py_int_def le_floor_iff le_ceiling_iff)

lemma py_int_nonneg: "0 \<le> x \<Longrightarrow> 0 \<le> py_int x"
  using int_le_py_int [of 0 x] by simp

lemma py_int_nonneg_le: "0 \<le> x \<Longrightarrow> of_int (py_int x) \<le> x"
  by (simp add: py_int_def)




section \<open>Price tables and the fallback estimate\<close>

text \<open>
  C6. For every property-type string the price-per-sqft table gives SINGLE_FAMILY 250,
  CONDO 300, TOWNHOUSE 275, MULTI_FAMILY 200 and 250 for any other type; the encoding gives
  SINGLE_FAMILY 1, CONDO 2, TOWNHOUSE 3, MULTI_FAMILY 4, LAND 5, COMMERCIAL 6 and 1 for any
  other type; and with no model loaded \<open>predict_price\<close> returns, its price being the
  square footage times the table's entry.
\<close>

theorem price_table_and_encoding:
  "estimate_price_per_sqft z t =
     (if t = ''SINGLE_FAMILY'' then 250 else if t = ''CONDO'' then 300
      else if t = ''TOWNHOUSE'' then 275 else if t = ''MULTI_FAMILY'' then 200 else 250)
   \<and> encode_property_type t =
     (if t = ''SINGLE_FAMILY'' then 1 else if t = ''CONDO'' then 2
      else if t = ''TOWNHOUSE'' then 3 else if t = ''MULTI_FAMILY'' then 4
      else if t = ''LAND'' then 5 else if t = ''COMMERCIAL'' then 6 else 1)
   \<and> (\<exists>r. predict_price None year a f = Inr r
          \<and> pr_predicted_price r
              = pf_sqft f * estimate_price_per_sqft (pf_zip_code f) (pf_property_type f))"
proof (intro conjI)
  show "estimate_price_per_sqft z t =
     (if t = ''SINGLE_FAMILY'' then 250 else if t = ''CONDO'' then 300
      else if t = ''TOWNHOUSE'' then 275 else if t = ''MULTI_FAMILY'' then 200 else 250)"
    by (simp add: estimate_price_per_sqft_def dict_get_def base_prices_def)
  show "encode_property_type t =
     (if t = ''SINGLE_FAMILY'' then 1 else if t = ''CONDO'' then 2
      else if t = ''TOWNHOUSE'' then 3 else if t = ''MULTI_FAMILY'' then 4
      else if t = ''LAND'' then 5 else if t = ''COMMERCIAL'' then 6 else 1)"
    by (simp add: encode_property_type_def dict_get_def encodings_def)
  show "\<exists>r. predict_price None year a f = Inr r
          \<and> pr_predicted_price r
              = pf_sqft f * estimate_price_per_sqft (pf_zip_code f) (pf_property_type f)"
    by (simp add: predict_price_def and_then_def Let_def)
qed

theorem price_table_and_encoding_witness:
  "estimate_price_per_sqft ''94110'' ''CONDO'' = 300
   \<and> estimate_price_per_sqft ''94110'' ''LAND'' = 250
   \<and> encode_property_type ''LAND'' = 5
   \<and> encode_property_type ''CASTLE'' = 1"
  using price_table_and_encoding [of "''94110''" "''CONDO''"]
    price_table_and_encoding [of "''94110''" "''LAND''"]
    price_table_and_encoding [of "''94110''" "''CASTLE''"]
  by simp

section \<open>Recommendation\<close>

text \<open>
  C8. \<open>generate_recommendation\<close> takes its branches in this order: an overall score of at
  least 80 gives "Strong Buy"; otherwise at least 65 gives "Buy"; otherwise at least 50
  gives the appreciation "Consider" text when appreciation is above 70, else the cash-flow
  "Consider" text when cash flow is above 70, else "Hold"; below 50 a risk above 70 gives
  "Avoid" and anything else "Pass". At overall 80, appreciation 90, cash flow 90, risk 10
  the result is "Strong Buy".
\<close>

theorem generate_recommendation_priority:
  "(80 \<le> overall \<longrightarrow>
      generate_recommendation overall appreciation cash_flow risk
        = ''Strong Buy - Excellent investment opportunity.'')
   \<and> (65 \<le> overall \<and> overall < 80 \<longrightarrow>
      generate_recommendation overall appreciation cash_flow risk
        = ''Buy - Good investment potential.'')
   \<and> (50 \<le> overall \<and> overall < 65 \<and> 70 < appreciation \<longrightarrow>
      generate_recommendation overall appreciation cash_flow risk
        = ''Consider - Strong appreciation potential for growth investors.'')
   \<and> (50 \<le> overall \<and> overall < 65 \<and> appreciation \<le> 70 \<and> 70 < cash_flow \<longrightarrow>
      generate_recommendation overall appreciation cash_flow risk
        = ''Consider - Strong cash flow for income investors.'')
   \<and> (50 \<le> overall \<and> overall < 65 \<and> appreciation \<le> 70 \<and> cash_flow \<le> 70 \<longrightarrow>
      generate_recommendation overall appreciation cash_flow risk
        = ''Hold - Average investment opportunity.'')
   \<and> (overall < 50 \<and> 70 < risk \<longrightarrow>
      generate_recommendation overall appreciation cash_flow risk
        = ''Avoid - High risk with below-average returns.'')
   \<and> (overall < 50 \<and> risk \<le> 70 \<longrightarrow>
      generate_recommendation overall appreciation cash_flow risk
        = ''Pass - Look for better alternatives.'')
   \<and> generate_recommendation 80 90 90 10 = ''Strong Buy - Excellent investment opportunity.''"
  by (simp add: generate_recommendation_def)

theorem generate_recommendation_priority_witness:
  "generate_recommendation 85 90 90 90 = ''Strong Buy - Excellent investment opportunity.''
   \<and> generate_recommendation 70 90 90 90 = ''Buy - Good investment potential.''
   \<and> generate_recommendation 60 71 90 90
       = ''Consider - Strong appreciation potential for growth investors.''
   \<and> generate_recommendation 60 70 71 90 = ''Consider - Strong cash flow for income investors.''
   \<and> generate_recommendation 60 70 70 90 = ''Hold - Average investment opportunity.''
   \<and> generate_recommendation 49 90 90 71 = ''Avoid - High risk with below-average returns.''
   \<and> generate_recommendation 49 90 90 70 = ''Pass - Look for better alternatives.''"
  using generate_recommendation_priority [of 85 90 90 90]
    generate_recommendation_priority [of 70 90 90 90]
    generate_recommendation_priority [of 60 71 90 90]
    generate_recommendation_priority [of 60 70 71 90]
    generate_recommendation_priority [of 60 70 70 90]
    generate_recommendation_priority [of 49 90 90 71]
    generate_recommendation_priority [of 49 90 90 70]
  by simp

section \<open>Appreciation score\<close>

text \<open>
  C10. In \<open>calculate_appreciation_score\<close> a predicted price of 0 and a forecast of 0.0 are
  each treated as absent: the score is the one computed without that argument, so a zero
  forecast leaves the score at its prior value instead of blending it (which would halve a
  score of 50 to 25).
\<close>

theorem zero_is_treated_as_absent:
  "calculate_appreciation_score list_price (Some 0) forecast
     = calculate_appreciation_score list_price None forecast
   \<and> calculate_appreciation_score list_price predicted (Some 0)
     = calculate_appreciation_score list_price predicted None
   \<and> calculate_appreciation_score 100 None (Some 0) = 50
   \<and> min 100 (of_int (py_int ((50 + 0 * 5) / 2))) = (25 :: rat)"
proof (intro conjI)
  show "calculate_appreciation_score list_price (Some 0) forecast
     = calculate_appreciation_score list_price None forecast"
    by (simp add: calculate_appreciation_score_def)
  show "calculate_appreciation_score list_price predicted (Some 0)
     = calculate_appreciation_score list_price predicted None"
    by (simp add: calculate_appreciation_score_def)
  show "calculate_appreciation_score 100 None (Some 0) = 50"
    by (simp add: calculate_appreciation_score_def)
  show "min 100 (of_int (py_int ((50 + 0 * 5) / 2))) = (25 :: rat)"
    by code_simp
qed




section \<open>The worked example\<close>

text \<open>
  C2, as stated, fails: for list price 300000 and 1500 square feet with nothing else given,
  the overall score is not 53 and the recommendation is not "Hold".
\<close>

theorem example_overall_counterexample:
  "\<not> (\<exists>r. calculate_investment_score example_request = Inr r \<and> overall_score r = 53)
   \<and> \<not> (\<exists>r. calculate_investment_score example_request = Inr r
             \<and> recommendation r = ''Hold - Average investment opportunity.'')"
proof -
  have "calculate_investment_score example_request
      = Inr \<lparr> overall_score = 60, appreciation_score = 50, cash_flow_score = 90,
              risk_adjusted_score = 52, market_momentum_score = 50, liquidity_score = 50,
              risk_score = 50, risk_level = ''Medium-Low'',
              recommendation = ''Consider - Strong cash flow for income investors.'',
              key_factors = [''Excellent cash flow opportunity''] \<rparr>"
    by code_simp
  then show ?thesis
    by simp
qed

text \<open>
  C2, amended. For list price 300000 and 1500 square feet, with no predicted price, no
  forecast and no market metrics, the scores are appreciation 50, cash flow 90, momentum 50,
  liquidity 50, risk 50, risk-adjusted 52 and overall 60 (15 + 22.5 + 10.4 + 7.5 + 5 = 60.4,
  truncated), and the recommendation is "Consider - Strong cash flow for income investors."
\<close>

theorem example_scores:
  "calculate_investment_score
     \<lparr> isr_property_id = pid, isr_list_price = 300000, isr_predicted_price = None,
       isr_sqft = 1500, isr_appreciation_forecast = None, isr_market_metrics = None \<rparr>
   = Inr \<lparr> overall_score = 60, appreciation_score = 50, cash_flow_score = 90,
           risk_adjusted_score = 52, market_momentum_score = 50, liquidity_score = 50,
           risk_score = 50, risk_level = ''Medium-Low'',
           recommendation = ''Consider - Strong cash flow for income investors.'',
           key_factors = [''Excellent cash flow opportunity''] \<rparr>"
  by code_simp

section \<open>Confidence band\<close>




section \<open>Synthetic comparables\<close>

lemma sorted_desc_sort_key:
  fixes f :: "'a \<Rightarrow> rat"
  shows "sorted_wrt (\<lambda>a b. f b \<le> f a) (sort_key (\<lambda>x. - f x) xs)"
proof -
  have "sorted (map (\<lambda>x. - f x) (sort_key (\<lambda>x. - f x) xs))"
    by (rule sorted_sort_key)
  then show ?thesis
    by (simp add: sorted_map)
qed

text \<open>
  C7. For every comps request with requested count N, N not negative,
  \<open>generate_synthetic_comps\<close> returns exactly N records, and the list is in non-increasing
  order of similarity.
\<close>

theorem comps_count_and_order:
  assumes "0 \<le> cr_limit request"
  shows "int (length (generate_synthetic_comps draws request)) = cr_limit request
         \<and> sorted_wrt (\<lambda>a b. c_similarity b \<le> c_similarity a)
               (generate_synthetic_comps draws request)"
proof
  show "int (length (generate_synthetic_comps draws request)) = cr_limit request"
    using assms by (simp add: generate_synthetic_comps_def)
  show "sorted_wrt (\<lambda>a b. c_similarity b \<le> c_similarity a)
          (generate_synthetic_comps draws request)"
    unfolding generate_synthetic_comps_def Let_def by (rule sorted_desc_sort_key)
qed

theorem comps_count_and_order_witness:
  "0 \<le> cr_limit three_request
   \<and> int (length (generate_synthetic_comps three_draws three_request)) = 3
   \<and> sorted_wrt (\<lambda>a b. c_similarity b \<le> c_similarity a)
         (generate_synthetic_comps three_draws three_request)
   \<and> map c_similarity (generate_synthetic_comps three_draws three_request)
       = [9 / 10, 17 / 20, 4 / 5]"
proof -
  have h: "0 \<le> cr_limit three_request"
    by (simp add: three_request_def)
  have l: "cr_limit three_request = 3"
    by (simp add: three_request_def)
  have v: "map c_similarity (generate_synthetic_comps three_draws three_request)
       = [9 / 10, 17 / 20, 4 / 5]"
    by code_simp
  from comps_count_and_order [OF h, of three_draws] h l v show ?thesis
    by simp
qed




section \<open>Ranges of the component scores\<close>

lemma appreciation_score_le_100:
  "calculate_appreciation_score list_price predicted forecast \<le> 100"
  by (simp add: calculate_appreciation_score_def Let_def split: option.splits)

lemma appreciation_score_without_forecast_nonneg:
  "0 \<le> calculate_appreciation_score list_price predicted None"
  by (simp add: calculate_appreciation_score_def Let_def split: option.splits)

lemma appreciation_score_blend:
  "calculate_appreciation_score list_price predicted (Some f) =
     (if f \<noteq> 0 then
        min 100 (of_int (py_int ((calculate_appreciation_score list_price predicted None + f * 5) / 2)))
      else calculate_appreciation_score list_price predicted None)"
  by (simp add: calculate_appreciation_score_def Let_def split: option.splits)

lemma appreciation_score_nonneg:
  assumes "\<forall>f. forecast = Some f \<longrightarrow> 0 \<le> f"
  shows "0 \<le> calculate_appreciation_score list_price predicted forecast"
proof (cases forecast)
  case None
  then show ?thesis
    by (simp add: appreciation_score_without_forecast_nonneg)
next
  case (Some f)
  define s where "s = calculate_appreciation_score list_price predicted None"
  have s: "0 \<le> s"
    unfolding s_def by (rule appreciation_score_without_forecast_nonneg)
  have f: "0 \<le> f"
    using assms Some by simp
  have "0 \<le> (s + f * 5) / 2"
    using s f by simp
  then have "0 \<le> py_int ((s + f * 5) / 2)"
    by (rule py_int_nonneg)
  then have "0 \<le> min 100 (rat_of_int (py_int ((s + f * 5) / 2)))"
    by simp
  then show ?thesis
    using s unfolding Some appreciation_score_blend s_def by simp
qed

lemma cash_flow_score_le_100:
  "calculate_cash_flow_score list_price sqft mm = Inr c \<Longrightarrow> c \<le> 100"
  by (auto simp: calculate_cash_flow_score_def Let_def split: if_splits)

lemma cash_flow_score_nonneg:
  assumes "calculate_cash_flow_score list_price sqft mm = Inr c"
    and "0 < list_price" and "0 \<le> sqft"
  shows "0 \<le> c"
proof -
  have "0 \<le> rat_of_int sqft * (15 / 10) * 12 / rat_of_int list_price * 100 * 10"
    using assms(2,3) by simp
  then have "0 \<le> py_int (rat_of_int sqft * (15 / 10) * 12 / rat_of_int list_price * 100 * 10)"
    by (rule py_int_nonneg)
  then show ?thesis
    using assms(1,2) by (auto simp: calculate_cash_flow_score_def Let_def split: if_splits)
qed

lemma market_momentum_score_range:
  "calculate_market_momentum_score mm = Inr m \<Longrightarrow> 0 \<le> m \<and> m \<le> 100"
  by (auto simp: calculate_market_momentum_score_def and_then_def split: if_splits sum.splits)

lemma liquidity_score_nonneg:
  "calculate_liquidity_score mm = Inr l \<Longrightarrow> 0 \<le> l"
  by (auto simp: calculate_liquidity_score_def and_then_def split: if_splits sum.splits)

lemma liquidity_score_le_100:
  assumes "calculate_liquidity_score mm = Inr l"
    and "\<forall>d. as_number (metrics_get mm ''days_on_market_avg'' (JNum 60)) = Inr d \<longrightarrow> 0 \<le> d"
  shows "l \<le> 100"
  using assms
  by (auto simp: calculate_liquidity_score_def and_then_def split: if_splits sum.splits)

lemma temperature_score_range:
  "30 \<le> dict_get temperature_scores t 50 \<and> dict_get temperature_scores t 50 \<le> 70"
  by (simp add: dict_get_def temperature_scores_def)

lemma risk_score_range:
  assumes "calculate_risk_score mm = Inr k"
  shows "30 \<le> k \<and> k \<le> 70"
proof (cases "no_metrics mm")
  case True
  then show ?thesis
    using assms by (simp add: calculate_risk_score_def)
next
  case False
  show ?thesis
  proof (cases "metrics_get mm ''market_temperature'' (JStr ''NEUTRAL'')")
    case (JStr t)
    then have "k = dict_get temperature_scores t 50"
      using assms False by (simp add: calculate_risk_score_def)
    then show ?thesis
      using temperature_score_range [of t] by simp
  qed (use assms False in \<open>simp_all add: calculate_risk_score_def\<close>)
qed

lemma calculate_investment_score_Inr:
  assumes "calculate_investment_score request = Inr r"
  obtains c m l k where
    "calculate_cash_flow_score (isr_list_price request) (isr_sqft request)
       (isr_market_metrics request) = Inr c"
    "calculate_market_momentum_score (isr_market_metrics request) = Inr m"
    "calculate_liquidity_score (isr_market_metrics request) = Inr l"
    "calculate_risk_score (isr_market_metrics request) = Inr k"
    "appreciation_score r =
       calculate_appreciation_score (isr_list_price request) (isr_predicted_price request)
         (isr_appreciation_forecast request)"
    "cash_flow_score r = c"
    "market_momentum_score r = m"
    "liquidity_score r = l"
    "risk_score r = k"
    "risk_adjusted_score r =
       py_int ((appreciation_score r + of_int c) / 2 * (1 - of_int k / 200))"
    "overall_score r =
       py_int (appreciation_score r * (30 / 100) + of_int c * (25 / 100)
               + of_int (risk_adjusted_score r) * (20 / 100) + m * (15 / 100) + l * (10 / 100))"
  using assms unfolding calculate_investment_score_def and_then_def Let_def
  by (auto split: sum.splits)

section \<open>Ranges of the response\<close>

text \<open>
  C1, as stated, fails. A forecast of -12 gives an appreciation score of -5; a negative
  area gives a cash-flow score of -90 and a risk-adjusted score of -15; a
  negative average of days on market gives a liquidity score of 1100 and an overall score
  of 165.
\<close>

theorem scores_out_of_range_counterexample:
  "calculate_investment_score declining_request
     = Inr \<lparr> overall_score = 39, appreciation_score = - 5, cash_flow_score = 90,
             risk_adjusted_score = 31, market_momentum_score = 50, liquidity_score = 50,
             risk_score = 50, risk_level = ''Medium-Low'',
             recommendation = ''Pass - Look for better alternatives.'',
             key_factors = [''Limited appreciation upside'', ''Excellent cash flow opportunity''] \<rparr>
   \<and> calculate_investment_score negative_sqft_request
     = Inr \<lparr> overall_score = 2, appreciation_score = 50, cash_flow_score = - 90,
             risk_adjusted_score = - 15, market_momentum_score = 50, liquidity_score = 50,
             risk_score = 50, risk_level = ''Medium-Low'',
             recommendation = ''Pass - Look for better alternatives.'',
             key_factors = [''Weak rental yield''] \<rparr>
   \<and> calculate_investment_score negative_days_request
     = Inr \<lparr> overall_score = 165, appreciation_score = 50, cash_flow_score = 90,
             risk_adjusted_score = 52, market_momentum_score = 50, liquidity_score = 1100,
             risk_score = 50, risk_level = ''Medium-Low'',
             recommendation = ''Strong Buy - Excellent investment opportunity.'',
             key_factors = [''Excellent cash flow opportunity'', ''High market liquidity''] \<rparr>"
proof (intro conjI)
  show "calculate_investment_score declining_request
     = Inr \<lparr> overall_score = 39, appreciation_score = - 5, cash_flow_score = 90,
             risk_adjusted_score = 31, market_momentum_score = 50, liquidity_score = 50,
             risk_score = 50, risk_level = ''Medium-Low'',
             recommendation = ''Pass - Look for better alternatives.'',
             key_factors = [''Limited appreciation upside'', ''Excellent cash flow opportunity''] \<rparr>"
    by code_simp
  show "calculate_investment_score negative_sqft_request
     = Inr \<lparr> overall_score = 2, appreciation_score = 50, cash_flow_score = - 90,
             risk_adjusted_score = - 15, market_momentum_score = 50, liquidity_score = 50,
             risk_score = 50, risk_level = ''Medium-Low'',
             recommendation = ''Pass - Look for better alternatives.'',
             key_factors = [''Weak rental yield''] \<rparr>"
    by code_simp
  show "calculate_investment_score negative_days_request
     = Inr \<lparr> overall_score = 165, appreciation_score = 50, cash_flow_score = 90,
             risk_adjusted_score = 52, market_momentum_score = 50, liquidity_score = 1100,
             risk_score = 50, risk_level = ''Medium-Low'',
             recommendation = ''Strong Buy - Excellent investment opportunity.'',
             key_factors = [''Excellent cash flow opportunity'', ''High market liquidity''] \<rparr>"
    by code_simp
qed

text \<open>
  C1, amended. In every response of /investment-score the appreciation and cash-flow scores
  are at most 100, the momentum score is in [0, 100], the liquidity score is at least 0 and
  the risk score is in [30, 70]. When moreover the list price is positive, the area is not
  negative, the forecast (if given) is not negative and the average of days on market (if
  market metrics give one) is not negative, each of the six component scores and the
  overall score lies in [0, 100].
\<close>

theorem scores_in_range:
  assumes "calculate_investment_score request = Inr r"
  shows "appreciation_score r \<le> 100
         \<and> cash_flow_score r \<le> 100
         \<and> 0 \<le> market_momentum_score r \<and> market_momentum_score r \<le> 100
         \<and> 0 \<le> liquidity_score r
         \<and> 30 \<le> risk_score r \<and> risk_score r \<le> 70
         \<and> (0 < isr_list_price request
              \<and> 0 \<le> isr_sqft request
              \<and> (\<forall>f. isr_appreciation_forecast request = Some f \<longrightarrow> 0 \<le> f)
              \<and> (\<forall>d. as_number (metrics_get (isr_market_metrics request)
                                 ''days_on_market_avg'' (JNum 60)) = Inr d \<longrightarrow> 0 \<le> d)
              \<longrightarrow> 0 \<le> appreciation_score r
                  \<and> 0 \<le> cash_flow_score r
                  \<and> liquidity_score r \<le> 100
                  \<and> 0 \<le> risk_adjusted_score r \<and> risk_adjusted_score r \<le> 100
                  \<and> 0 \<le> overall_score r \<and> overall_score r \<le> 100)"
proof -
  from assms obtain c m l k where
    cf: "calculate_cash_flow_score (isr_list_price request) (isr_sqft request)
           (isr_market_metrics request) = Inr c"
    and mm: "calculate_market_momentum_score (isr_market_metrics request) = Inr m"
    and lq: "calculate_liquidity_score (isr_market_metrics request) = Inr l"
    and rk: "calculate_risk_score (isr_market_metrics request) = Inr k"
    and a: "appreciation_score r =
       calculate_appreciation_score (isr_list_price request) (isr_predicted_price request)
         (isr_appreciation_forecast request)"
    and fields: "cash_flow_score r = c" "market_momentum_score r = m" "liquidity_score r = l"
      "risk_score r = k"
    and ra: "risk_adjusted_score r =
       py_int ((appreciation_score r + of_int c) / 2 * (1 - of_int k / 200))"
    and ov: "overall_score r =
       py_int (appreciation_score r * (30 / 100) + of_int c * (25 / 100)
               + of_int (risk_adjusted_score r) * (20 / 100) + m * (15 / 100) + l * (10 / 100))"
    by (rule calculate_investment_score_Inr)
  have a_hi: "appreciation_score r \<le> 100"
    unfolding a by (rule appreciation_score_le_100)
  have c_hi: "c \<le> 100"
    using cf by (rule cash_flow_score_le_100)
  have m_rng: "0 \<le> m \<and> m \<le> 100"
    using mm by (rule market_momentum_score_range)
  have l_lo: "0 \<le> l"
    using lq by (rule liquidity_score_nonneg)
  have k_rng: "30 \<le> k \<and> k \<le> 70"
    using rk by (rule risk_score_range)
  have cond: "0 \<le> appreciation_score r \<and> 0 \<le> cash_flow_score r \<and> liquidity_score r \<le> 100
      \<and> 0 \<le> risk_adjusted_score r \<and> risk_adjusted_score r \<le> 100
      \<and> 0 \<le> overall_score r \<and> overall_score r \<le> 100"
    if lp: "0 < isr_list_price request" and sq: "0 \<le> isr_sqft request"
      and fc: "\<forall>f. isr_appreciation_forecast request = Some f \<longrightarrow> 0 \<le> f"
      and dm: "\<forall>d. as_number (metrics_get (isr_market_metrics request)
                         ''days_on_market_avg'' (JNum 60)) = Inr d \<longrightarrow> 0 \<le> d"
  proof -
    define x where "x = appreciation_score r"
    define y :: rat where "y = of_int c"
    define w :: rat where "w = 1 - of_int k / 200"
    have x: "0 \<le> x" "x \<le> 100"
      unfolding x_def using a_hi appreciation_score_nonneg [OF fc] a by simp_all
    have c_lo: "0 \<le> c"
      using cf lp sq by (rule cash_flow_score_nonneg)
    have y: "0 \<le> y" "y \<le> 100"
      using c_lo c_hi by (simp_all add: y_def)
    have l_hi: "l \<le> 100"
      using lq dm by (rule liquidity_score_le_100)
    have w: "0 \<le> w" "w \<le> 1"
      using k_rng by (simp_all add: w_def)
    define h where "h = (x + y) / 2"
    have h: "0 \<le> h" "h \<le> 100"
      using x y by (simp_all add: h_def)
    have p_lo: "0 \<le> h * w"
      using h(1) w(1) by (rule mult_nonneg_nonneg)
    have "h * w \<le> 100 * 1"
      using h w by (intro mult_mono) simp_all
    then have p_hi: "h * w \<le> rat_of_int 100"
      by simp
    have ra': "risk_adjusted_score r = py_int (h * w)"
      by (simp add: ra h_def x_def y_def w_def)
    have ra_lo: "0 \<le> risk_adjusted_score r"
      unfolding ra' using p_lo by (rule py_int_nonneg)
    have ra_hi: "risk_adjusted_score r \<le> 100"
      unfolding ra' using p_hi by (rule py_int_le_int)
    define z :: rat where "z = of_int (risk_adjusted_score r)"
    have z: "0 \<le> z" "z \<le> 100"
      using ra_lo ra_hi by (simp_all add: z_def)
    define t where
      "t = x * (30 / 100) + y * (25 / 100) + z * (20 / 100) + m * (15 / 100) + l * (10 / 100)"
    have t_lo: "0 \<le> t"
      using x y z m_rng l_lo unfolding t_def by simp
    have "t \<le> 100"
      using x y z m_rng l_hi unfolding t_def by simp
    then have t_hi: "t \<le> rat_of_int 100"
      by simp
    have ov': "overall_score r = py_int t"
      by (simp add: ov t_def x_def y_def z_def)
    have ov_lo: "0 \<le> overall_score r"
      unfolding ov' using t_lo by (rule py_int_nonneg)
    have ov_hi: "overall_score r \<le> 100"
      unfolding ov' using t_hi by (rule py_int_le_int)
    show ?thesis
      using x c_lo l_hi ra_lo ra_hi ov_lo ov_hi by (simp add: x_def fields)
  qed
  show ?thesis
    using a_hi c_hi m_rng l_lo k_rng cond by (simp add: fields)
qed

theorem scores_in_range_witness:
  "\<exists>r. calculate_investment_score full_request = Inr r
     \<and> 0 < isr_list_price full_request
     \<and> 0 \<le> isr_sqft full_request
     \<and> isr_appreciation_forecast full_request = Some 5
     \<and> 0 \<le> appreciation_score r \<and> appreciation_score r \<le> 100
     \<and> 0 \<le> cash_flow_score r \<and> cash_flow_score r \<le> 100
     \<and> 0 \<le> market_momentum_score r \<and> market_momentum_score r \<le> 100
     \<and> 0 \<le> liquidity_score r \<and> liquidity_score r \<le> 100
     \<and> 0 \<le> risk_adjusted_score r \<and> risk_adjusted_score r \<le> 100
     \<and> 30 \<le> risk_score r \<and> risk_score r \<le> 70
     \<and> 0 \<le> overall_score r \<and> overall_score r \<le> 100"
proof -
  have "calculate_investment_score full_request
      = Inr \<lparr> overall_score = 69, appreciation_score = 62, cash_flow_score = 90,
              risk_adjusted_score = 64, market_momentum_score = 62, liquidity_score = 65,
              risk_score = 30, risk_level = ''Low'',
              recommendation = ''Buy - Good investment potential.'',
              key_factors = [''Excellent cash flow opportunity''] \<rparr>"
    by code_simp
  then obtain r where r: "calculate_investment_score full_request = Inr r"
    by blast
  have lp: "0 < isr_list_price full_request"
    by (simp add: full_request_def)
  have sq: "0 \<le> isr_sqft full_request"
    by (simp add: full_request_def)
  have fc: "isr_appreciation_forecast full_request = Some 5"
    by (simp add: full_request_def)
  have fc': "\<forall>f. isr_appreciation_forecast full_request = Some f \<longrightarrow> 0 \<le> f"
    by (simp add: full_request_def)
  have dm: "\<forall>d. as_number (metrics_get (isr_market_metrics full_request)
                      ''days_on_market_avg'' (JNum 60)) = Inr d \<longrightarrow> 0 \<le> d"
    by (simp add: full_request_def metrics_get_def dict_get_def)
  from scores_in_range [OF r] lp sq fc' dm r fc show ?thesis
    by blast
qed

section \<open>The fitted flag of the predictors\<close>

lemma attempt_cases:
  assumes "attempt r self f = (self', out)"
  obtains e where "r = Inl e" "self' = self" "out = Inl e"
    | v where "r = Inr v" "f v = (self', out)"
  using assms by (auto simp: attempt_def split: sum.splits)

lemma PropertyPricePredictor_fit_flag:
  assumes "PropertyPricePredictor_fit lib year self X y test_size random_state = (self', out)"
  shows "pp_is_fitted self' \<longleftrightarrow> pp_is_fitted self \<or> \<not> isl out"
  using assms unfolding PropertyPricePredictor_fit_def Let_def
  by (auto elim!: attempt_cases)

lemma AppreciationPredictor_fit_flag:
  assumes "AppreciationPredictor_fit lib self market_data appreciation = (self', out)"
  shows "ap_is_fitted self' \<longleftrightarrow> ap_is_fitted self \<or> \<not> isl out"
  using assms unfolding AppreciationPredictor_fit_def Let_def
  by (auto elim!: attempt_cases)

lemma lib_call_not_ValueError: "lib_call r \<noteq> Inl (ValueError msg)"
  by (simp add: lib_call_def split: sum.splits)

lemma and_then_Inl:
  assumes "and_then r f = Inl e"
  obtains "r = Inl e" | v where "r = Inr v" "f v = Inl e"
  using assms by (auto simp: and_then_def split: sum.splits)

lemma np_zip_not_fitted_message:
  "np_zip f xs ys \<noteq> Inl (ValueError ''Model must be fitted before prediction'')"
  "np_zip f xs ys \<noteq> Inl (ValueError ''Model must be fitted first'')"
  by (simp_all add: np_zip_def)

lemma fitted_predict:
  assumes "pp_is_fitted self"
  shows "PropertyPricePredictor_predict lib year self X rc
           \<noteq> Inl (ValueError ''Model must be fitted before prediction'')"
proof
  assume "PropertyPricePredictor_predict lib year self X rc
            = Inl (ValueError ''Model must be fitted before prediction'')"
  then show False
    using assms unfolding PropertyPricePredictor_predict_def Let_def
    by (auto simp: lib_call_not_ValueError np_zip_not_fitted_message
        split: option.splits if_splits elim!: and_then_Inl)
qed

lemma fitted_get_feature_importance:
  assumes "pp_is_fitted self"
  shows "PropertyPricePredictor_get_feature_importance lib self
           \<noteq> Inl (ValueError ''Model must be fitted first'')"
proof
  assume "PropertyPricePredictor_get_feature_importance lib self
            = Inl (ValueError ''Model must be fitted first'')"
  then show False
    using assms unfolding PropertyPricePredictor_get_feature_importance_def Let_def
    by (auto simp: lib_call_not_ValueError np_zip_not_fitted_message
        split: option.splits if_splits elim!: and_then_Inl)
qed

lemma fitted_appreciation_predict:
  assumes "ap_is_fitted self"
  shows "AppreciationPredictor_predict lib self market_data
           \<noteq> Inl (ValueError ''Model must be fitted first'')"
proof
  assume "AppreciationPredictor_predict lib self market_data
            = Inl (ValueError ''Model must be fitted first'')"
  then show False
    using assms unfolding AppreciationPredictor_predict_def
    by (auto simp: lib_call_not_ValueError split: option.splits if_splits elim!: and_then_Inl)
qed

lemma PropertyPricePredictor_load_fitted:
  "PropertyPricePredictor_load fs path = Inr self \<Longrightarrow> pp_is_fitted self"
  by (auto simp: PropertyPricePredictor_load_def split: option.splits stored.splits)

lemma AppreciationPredictor_load_fitted:
  "AppreciationPredictor_load lib fs path = Inr self \<Longrightarrow> ap_is_fitted self"
  by (auto simp: AppreciationPredictor_load_def split: option.splits stored.splits)

text \<open>
  C9. \<open>predict\<close> of either predictor and \<open>get_feature_importance\<close> raise the not-fitted
  \<open>ValueError\<close> on a new object and on any object that is not fitted, also after a
  \<open>fit\<close> that raised before its end; after a \<open>fit\<close> that returned, or on an object
  \<open>load\<close> returned, they do not raise that error.
\<close>

theorem not_fitted_guard:
  fixes lib :: "('c, 'mat, 'pre, 'mdl) price_lib"
    and alib :: "('md, 'amat, 'sc, 'amdl) appreciation_lib"
    and fs :: "string \<rightharpoonup> ('pre, 'mdl, 'fsc) stored"
    and afs :: "string \<rightharpoonup> ('apre, 'amdl, 'sc) stored"
  shows
  "PropertyPricePredictor_predict lib year PropertyPricePredictor_init X rc
     = Inl (ValueError ''Model must be fitted before prediction'')
   \<and> PropertyPricePredictor_get_feature_importance lib PropertyPricePredictor_init
     = Inl (ValueError ''Model must be fitted first'')
   \<and> AppreciationPredictor_predict alib (AppreciationPredictor_init alib) md
     = Inl (ValueError ''Model must be fitted first'')
   \<and> (\<not> pp_is_fitted self
        \<and> PropertyPricePredictor_fit lib year self X0 y test_size random_state = (self', Inl e)
      \<longrightarrow> PropertyPricePredictor_predict lib year self' X rc
            = Inl (ValueError ''Model must be fitted before prediction'')
          \<and> PropertyPricePredictor_get_feature_importance lib self'
            = Inl (ValueError ''Model must be fitted first''))
   \<and> (\<not> ap_is_fitted aself
        \<and> AppreciationPredictor_fit alib aself md0 appreciation = (aself', Inl e)
      \<longrightarrow> AppreciationPredictor_predict alib aself' md
            = Inl (ValueError ''Model must be fitted first''))
   \<and> (PropertyPricePredictor_fit lib year self X0 y test_size random_state = (self', Inr metrics)
      \<longrightarrow> PropertyPricePredictor_predict lib year self' X rc
            \<noteq> Inl (ValueError ''Model must be fitted before prediction'')
          \<and> PropertyPricePredictor_get_feature_importance lib self'
            \<noteq> Inl (ValueError ''Model must be fitted first''))
   \<and> (AppreciationPredictor_fit alib aself md0 appreciation = (aself', Inr metrics)
      \<longrightarrow> AppreciationPredictor_predict alib aself' md
            \<noteq> Inl (ValueError ''Model must be fitted first''))
   \<and> (PropertyPricePredictor_load fs path = Inr loaded
      \<longrightarrow> PropertyPricePredictor_predict lib year loaded X rc
            \<noteq> Inl (ValueError ''Model must be fitted before prediction'')
          \<and> PropertyPricePredictor_get_feature_importance lib loaded
            \<noteq> Inl (ValueError ''Model must be fitted first''))
   \<and> (AppreciationPredictor_load alib afs path = Inr aloaded
      \<longrightarrow> AppreciationPredictor_predict alib aloaded md
            \<noteq> Inl (ValueError ''Model must be fitted first''))"
proof (intro conjI impI)
  show "PropertyPricePredictor_predict lib year PropertyPricePredictor_init X rc
     = Inl (ValueError ''Model must be fitted before prediction'')"
    by (simp add: PropertyPricePredictor_predict_def PropertyPricePredictor_init_def)
  show "PropertyPricePredictor_get_feature_importance lib PropertyPricePredictor_init
     = Inl (ValueError ''Model must be fitted first'')"
    by (simp add: PropertyPricePredictor_get_feature_importance_def PropertyPricePredictor_init_def)
  show "AppreciationPredictor_predict alib (AppreciationPredictor_init alib) md
     = Inl (ValueError ''Model must be fitted first'')"
    by (simp add: AppreciationPredictor_predict_def AppreciationPredictor_init_def)
next
  assume h: "\<not> pp_is_fitted self
        \<and> PropertyPricePredictor_fit lib year self X0 y test_size random_state = (self', Inl e)"
  then have n: "\<not> pp_is_fitted self'"
    using PropertyPricePredictor_fit_flag [of lib year self X0 y test_size random_state self' "Inl e"]
    by simp
  from n show "PropertyPricePredictor_predict lib year self' X rc
            = Inl (ValueError ''Model must be fitted before prediction'')"
    by (simp add: PropertyPricePredictor_predict_def)
  from n show "PropertyPricePredictor_get_feature_importance lib self'
            = Inl (ValueError ''Model must be fitted first'')"
    by (simp add: PropertyPricePredictor_get_feature_importance_def)
next
  assume h: "\<not> ap_is_fitted aself
        \<and> AppreciationPredictor_fit alib aself md0 appreciation = (aself', Inl e)"
  then have "\<not> ap_is_fitted aself'"
    using AppreciationPredictor_fit_flag [of alib aself md0 appreciation aself' "Inl e"]
    by simp
  then show "AppreciationPredictor_predict alib aself' md
            = Inl (ValueError ''Model must be fitted first'')"
    by (simp add: AppreciationPredictor_predict_def)
next
  assume h: "PropertyPricePredictor_fit lib year self X0 y test_size random_state
               = (self', Inr metrics)"
  then have f: "pp_is_fitted self'"
    using PropertyPricePredictor_fit_flag [OF h] by simp
  from f show "PropertyPricePredictor_predict lib year self' X rc
            \<noteq> Inl (ValueError ''Model must be fitted before prediction'')"
    by (rule fitted_predict)
  from f show "PropertyPricePredictor_get_feature_importance lib self'
            \<noteq> Inl (ValueError ''Model must be fitted first'')"
    by (rule fitted_get_feature_importance)
next
  assume h: "AppreciationPredictor_fit alib aself md0 appreciation = (aself', Inr metrics)"
  then have "ap_is_fitted aself'"
    using AppreciationPredictor_fit_flag [OF h] by simp
  then show "AppreciationPredictor_predict alib aself' md
            \<noteq> Inl (ValueError ''Model must be fitted first'')"
    by (rule fitted_appreciation_predict)
next
  assume "PropertyPricePredictor_load fs path = Inr loaded"
  then have f: "pp_is_fitted loaded"
    by (rule PropertyPricePredictor_load_fitted)
  from f show "PropertyPricePredictor_predict lib year loaded X rc
            \<noteq> Inl (ValueError ''Model must be fitted before prediction'')"
    by (rule fitted_predict)
  from f show "PropertyPricePredictor_get_feature_importance lib loaded
            \<noteq> Inl (ValueError ''Model must be fitted first'')"
    by (rule fitted_get_feature_importance)
next
  assume "AppreciationPredictor_load alib afs path = Inr aloaded"
  then have "ap_is_fitted aloaded"
    by (rule AppreciationPredictor_load_fitted)
  then show "AppreciationPredictor_predict alib aloaded md
            \<noteq> Inl (ValueError ''Model must be fitted first'')"
    by (rule fitted_appreciation_predict)
qed

theorem not_fitted_guard_witness:
  "(\<exists>s. PropertyPricePredictor_fit failing_price_lib 2026 PropertyPricePredictor_init
           [toy_row] [300000] (1 / 5) 42 = (s, Inl (LibraryError ''training failed''))
        \<and> PropertyPricePredictor_predict failing_price_lib 2026 s [toy_row] True
            = Inl (ValueError ''Model must be fitted before prediction'')
        \<and> PropertyPricePredictor_get_feature_importance failing_price_lib s
            = Inl (ValueError ''Model must be fitted first''))
   \<and> (\<exists>s. PropertyPricePredictor_fit toy_price_lib 2026 PropertyPricePredictor_init
           [toy_row] [300000] (1 / 5) 42 = (s, Inr [(''mae'', 0)])
        \<and> PropertyPricePredictor_predict toy_price_lib 2026 s [toy_row] True
            \<noteq> Inl (ValueError ''Model must be fitted before prediction'')
        \<and> PropertyPricePredictor_get_feature_importance toy_price_lib s
            \<noteq> Inl (ValueError ''Model must be fitted first''))
   \<and> (\<exists>s. PropertyPricePredictor_load toy_files ''price_predictor.joblib'' = Inr s
        \<and> PropertyPricePredictor_predict toy_price_lib 2026 s [toy_row] True
            \<noteq> Inl (ValueError ''Model must be fitted before prediction'')
        \<and> PropertyPricePredictor_get_feature_importance toy_price_lib s
            \<noteq> Inl (ValueError ''Model must be fitted first''))
   \<and> (\<exists>s. AppreciationPredictor_fit failing_appreciation_lib
           (AppreciationPredictor_init failing_appreciation_lib) () [3]
           = (s, Inl (LibraryError ''training failed''))
        \<and> AppreciationPredictor_predict failing_appreciation_lib s ()
            = Inl (ValueError ''Model must be fitted first''))
   \<and> (\<exists>s. AppreciationPredictor_fit toy_appreciation_lib
           (AppreciationPredictor_init toy_appreciation_lib) () [3] = (s, Inr [(''mae'', 0)])
        \<and> AppreciationPredictor_predict toy_appreciation_lib s ()
            \<noteq> Inl (ValueError ''Model must be fitted first''))
   \<and> (\<exists>s. AppreciationPredictor_load toy_appreciation_lib toy_files
           ''appreciation_model.joblib'' = Inr s
        \<and> AppreciationPredictor_predict toy_appreciation_lib s ()
            \<noteq> Inl (ValueError ''Model must be fitted first''))"
proof -
  have "snd (PropertyPricePredictor_fit failing_price_lib 2026 PropertyPricePredictor_init
               [toy_row] [300000] (1 / 5) 42) = Inl (LibraryError ''training failed'')"
    by code_simp
  then obtain s1 where f1: "PropertyPricePredictor_fit failing_price_lib 2026
      PropertyPricePredictor_init [toy_row] [300000] (1 / 5) 42
      = (s1, Inl (LibraryError ''training failed''))"
    by (metis prod.collapse)
  have "snd (PropertyPricePredictor_fit toy_price_lib 2026 PropertyPricePredictor_init
               [toy_row] [300000] (1 / 5) 42) = Inr [(''mae'', 0)]"
    by code_simp
  then obtain s2 where f2: "PropertyPricePredictor_fit toy_price_lib 2026
      PropertyPricePredictor_init [toy_row] [300000] (1 / 5) 42 = (s2, Inr [(''mae'', 0)])"
    by (metis prod.collapse)
  obtain s3 :: "(unit, nat) PropertyPricePredictor"
    where f3: "PropertyPricePredictor_load toy_files ''price_predictor.joblib'' = Inr s3"
    by (simp add: PropertyPricePredictor_load_def toy_files_def)
  have "snd (AppreciationPredictor_fit failing_appreciation_lib
               (AppreciationPredictor_init failing_appreciation_lib) () [3])
          = Inl (LibraryError ''training failed'')"
    by code_simp
  then obtain a1 where g1: "AppreciationPredictor_fit failing_appreciation_lib
      (AppreciationPredictor_init failing_appreciation_lib) () [3]
      = (a1, Inl (LibraryError ''training failed''))"
    by (metis prod.collapse)
  have "snd (AppreciationPredictor_fit toy_appreciation_lib
               (AppreciationPredictor_init toy_appreciation_lib) () [3]) = Inr [(''mae'', 0)]"
    by code_simp
  then obtain a2 where g2: "AppreciationPredictor_fit toy_appreciation_lib
      (AppreciationPredictor_init toy_appreciation_lib) () [3] = (a2, Inr [(''mae'', 0)])"
    by (metis prod.collapse)
  obtain a3 where g3: "AppreciationPredictor_load toy_appreciation_lib toy_files
      ''appreciation_model.joblib'' = Inr a3"
    by (simp add: AppreciationPredictor_load_def toy_files_def)
  have n: "\<not> pp_is_fitted (PropertyPricePredictor_init :: (unit, nat) PropertyPricePredictor)"
    by (simp add: PropertyPricePredictor_init_def)
  have m: "\<not> ap_is_fitted (AppreciationPredictor_init failing_appreciation_lib)"
    by (simp add: AppreciationPredictor_init_def)
  note failing =
    not_fitted_guard [where lib = failing_price_lib and year = 2026
      and self = PropertyPricePredictor_init and ?X0.0 = "[toy_row]" and y = "[300000]"
      and test_size = "1 / 5" and random_state = 42 and self' = s1
      and e = "LibraryError ''training failed''" and X = "[toy_row]" and rc = True
      and alib = failing_appreciation_lib
      and aself = "AppreciationPredictor_init failing_appreciation_lib" and ?md0.0 = "()"
      and appreciation = "[3]" and aself' = a1 and md = "()"
      and fs = toy_files and afs = toy_files]
  note ok =
    not_fitted_guard [where lib = toy_price_lib and year = 2026
      and self = PropertyPricePredictor_init and ?X0.0 = "[toy_row]" and y = "[300000]"
      and test_size = "1 / 5" and random_state = 42 and self' = s2
      and metrics = "[(''mae'', 0)]" and X = "[toy_row]" and rc = True
      and alib = toy_appreciation_lib
      and aself = "AppreciationPredictor_init toy_appreciation_lib" and ?md0.0 = "()"
      and appreciation = "[3]" and aself' = a2 and md = "()"
      and fs = toy_files and path = "''price_predictor.joblib''" and loaded = s3
      and afs = toy_files]
  note ok_load =
    not_fitted_guard [where alib = toy_appreciation_lib and md = "()"
      and afs = toy_files and path = "''appreciation_model.joblib''" and aloaded = a3
      and lib = toy_price_lib and fs = toy_files]
  have w1: "PropertyPricePredictor_predict failing_price_lib 2026 s1 [toy_row] True
            = Inl (ValueError ''Model must be fitted before prediction'')
        \<and> PropertyPricePredictor_get_feature_importance failing_price_lib s1
            = Inl (ValueError ''Model must be fitted first'')"
    using failing f1 n by blast
  have w2: "PropertyPricePredictor_predict toy_price_lib 2026 s2 [toy_row] True
            \<noteq> Inl (ValueError ''Model must be fitted before prediction'')
        \<and> PropertyPricePredictor_get_feature_importance toy_price_lib s2
            \<noteq> Inl (ValueError ''Model must be fitted first'')"
    using ok f2 by blast
  have w3: "PropertyPricePredictor_predict toy_price_lib 2026 s3 [toy_row] True
            \<noteq> Inl (ValueError ''Model must be fitted before prediction'')
        \<and> PropertyPricePredictor_get_feature_importance toy_price_lib s3
            \<noteq> Inl (ValueError ''Model must be fitted first'')"
    using ok f3 by blast
  have w4: "AppreciationPredictor_predict failing_appreciation_lib a1 ()
            = Inl (ValueError ''Model must be fitted first'')"
    using failing g1 m by blast
  have w5: "AppreciationPredictor_predict toy_appreciation_lib a2 ()
            \<noteq> Inl (ValueError ''Model must be fitted first'')"
    using ok g2 by blast
  have w6: "AppreciationPredictor_predict toy_appreciation_lib a3 ()
            \<noteq> Inl (ValueError ''Model must be fitted first'')"
    using ok_load g3 by blast
  show ?thesis
    using f1 f2 f3 g1 g2 g3 w1 w2 w3 w4 w5 w6 by blast
qed

end
